theory Spec2Isabelle
  imports Main "HOL-Library.Word"
begin

unbundle bit_operations_syntax

section \<open>The ESP codec of \<^verbatim>\<open>src/codecs/basic/cd_esp.cc\<close>\<close>

subsection \<open>Data\<close>

text \<open>
  Pointers into the packet are addresses; pointer arithmetic is integer arithmetic on
  them. The buffer handed to the codec is the byte list that starts at the address
  \<open>raw_pkt\<close>.
\<close>

type_synonym addr = int

text \<open>
  Modelled from the spec: the \<^verbatim>\<open>Packet\<close> struct is declared outside this file. The codec
  touches three of its fields: the flag word, the payload pointer and the 16-bit
  payload size (the source narrows to \<^verbatim>\<open>uint16_t\<close> when it stores into it).
\<close>

record Packet =
  packet_flags :: "32 word"
  data :: addr
  dsize :: "16 word"

datatype decoder_event_id = DECODE_ESP_HEADER_TRUNC

text \<open>
  \<^verbatim>\<open>struct CdPegs\<close>. The type \<^verbatim>\<open>PegCount\<close> is declared outside this file; it is taken
  as a 64-bit unsigned count.
\<close>

record CdPegs =
  processed :: "64 word"
  discards :: "64 word"

text \<open>
  What the codec consults and never owns: the configuration switch
  \<^verbatim>\<open>ScESPDecoding()\<close>, the registry query \<^verbatim>\<open>PacketManager::has_codec\<close>, and the two
  flag constants, whose values are declared outside this file.
\<close>

record codec_env =
  ScESPDecoding :: bool
  has_codec :: "16 word \<Rightarrow> bool"
  PKT_TRUST :: "32 word"
  PKT_UNSURE_ENCAP :: "32 word"

text \<open>
  Everything a call of \<^verbatim>\<open>decode\<close> can write: the packet, the two reference
  parameters \<^verbatim>\<open>lyr_len\<close> and \<^verbatim>\<open>next_prot_id\<close>, the queue of decoder events, and the
  thread-local peg counts of this file.
\<close>

record codec_state =
  pkt :: Packet
  lyr_len :: "16 word"
  next_prot_id :: int
  event_queue :: "decoder_event_id list"
  counts :: CdPegs

datatype error = OutOfBounds

subsection \<open>Constants\<close>

definition ESP_PROT_ID :: "16 word" where
  "ESP_PROT_ID = 50"

definition ESP_HEADER_LEN :: "32 word" where
  "ESP_HEADER_LEN = 8"

definition ESP_AUTH_DATA_LEN :: "32 word" where
  "ESP_AUTH_DATA_LEN = 12"

definition ESP_TRAILER_LEN :: "32 word" where
  "ESP_TRAILER_LEN = 2"

definition peg_names :: "string list" where
  "peg_names = [''NameCodec_processed'', ''NameCodec_discards'']"

subsection \<open>Collaborators\<close>

text \<open>A bounds-checked read of one byte at an address, in the buffer that starts at \<open>raw_pkt\<close>.\<close>

definition deref :: "8 word list \<Rightarrow> addr \<Rightarrow> addr \<Rightarrow> error + 8 word" where
  "deref buf raw_pkt ptr =
     (if raw_pkt \<le> ptr \<and> ptr < raw_pkt + int (length buf)
      then Inr (buf ! nat (ptr - raw_pkt))
      else Inl OutOfBounds)"

text \<open>
  Modelled from the spec: \<^verbatim>\<open>codec_events::decoder_event(p, id)\<close> is defined outside this
  file; it is fire-and-forget and records one diagnostic event for the packet.
\<close>

definition decoder_event :: "decoder_event_id \<Rightarrow> codec_state \<Rightarrow> codec_state" where
  "decoder_event ev s = s\<lparr>event_queue := event_queue s @ [ev]\<rparr>"

subsection \<open>\<^verbatim>\<open>EspCodec::decode\<close>\<close>

text \<open>
  The tail reads, as the source computes them: \<^verbatim>\<open>esp_payload + len - lyr_len\<close> and
  \<^verbatim>\<open>esp_payload + len + 1 - lyr_len\<close>, with \<^verbatim>\<open>esp_payload = raw_pkt + ESP_HEADER_LEN\<close>.
\<close>

definition pad_length_ptr :: "addr \<Rightarrow> 32 word \<Rightarrow> 16 word \<Rightarrow> addr" where
  "pad_length_ptr raw_pkt len ll = (raw_pkt + uint ESP_HEADER_LEN) + uint len - uint ll"

definition next_prot_ptr :: "addr \<Rightarrow> 32 word \<Rightarrow> 16 word \<Rightarrow> addr" where
  "next_prot_ptr raw_pkt len ll = (raw_pkt + uint ESP_HEADER_LEN) + uint len + 1 - uint ll"

text \<open>
  \<^verbatim>\<open>p->dsize = (u_short) len - lyr_len\<close>: the cast applies to \<^verbatim>\<open>len\<close> alone, the
  subtraction is done in \<^verbatim>\<open>int\<close>, and the store narrows to 16 bits.
\<close>

definition dsize_after :: "32 word \<Rightarrow> 16 word \<Rightarrow> 16 word" where
  "dsize_after len ll = word_of_int (uint (ucast len :: 16 word) - uint ll)"

definition decode ::
  "codec_env \<Rightarrow> 8 word list \<Rightarrow> addr \<Rightarrow> 32 word \<Rightarrow> codec_state \<Rightarrow> error + (bool \<times> codec_state)" where
  "decode env buf raw_pkt len s =
     (if \<not> ScESPDecoding env then Inr (False, s)
      else if len < ESP_HEADER_LEN + ESP_AUTH_DATA_LEN + ESP_TRAILER_LEN then
        (let s1 = decoder_event DECODE_ESP_HEADER_TRUNC s;
             s2 = s1\<lparr>pkt := (pkt s1)\<lparr>data := raw_pkt, dsize := ucast len\<rparr>\<rparr>
         in Inr (False, s2))
      else
        (let esp_payload = raw_pkt + uint ESP_HEADER_LEN;
             s1 = s\<lparr>lyr_len := ucast (ESP_HEADER_LEN + ESP_AUTH_DATA_LEN + ESP_TRAILER_LEN)\<rparr>
         in case deref buf raw_pkt (pad_length_ptr raw_pkt len (lyr_len s1)) of
              Inl e \<Rightarrow> Inl e
            | Inr pad_length \<Rightarrow>
               (case deref buf raw_pkt (next_prot_ptr raw_pkt len (lyr_len s1)) of
                  Inl e \<Rightarrow> Inl e
                | Inr nxt \<Rightarrow>
                   (let s2 = s1\<lparr>next_prot_id := uint nxt\<rparr> in
                    if (ucast pad_length :: 32 word) < len then
                      (let s3 = s2\<lparr>lyr_len := lyr_len s2 + ucast pad_length\<rparr> in
                       if \<not> has_codec env (word_of_int (next_prot_id s3)) then
                         Inr (True, s3\<lparr>pkt := (pkt s3)
                           \<lparr>packet_flags := packet_flags (pkt s3) OR PKT_UNSURE_ENCAP env\<rparr>\<rparr>)
                       else
                         Inr (True, s3\<lparr>pkt := (pkt s3)
                           \<lparr>packet_flags := packet_flags (pkt s3) OR PKT_TRUST env,
                            data := esp_payload,
                            dsize := dsize_after len (lyr_len s3)\<rparr>\<rparr>))
                    else
                      Inr (True, s2\<lparr>pkt := (pkt s2)
                        \<lparr>packet_flags := packet_flags (pkt s2) OR PKT_TRUST env,
                         data := esp_payload,
                         dsize := dsize_after len (lyr_len s2)\<rparr>,
                        next_prot_id := - 1\<rparr>)))))"

subsection \<open>The stats hook\<close>

text \<open>
  \<^verbatim>\<open>static void stats(std::vector<PegCount> g_peg_counts, std::vector<const char*> g_peg_names)\<close>
  returns nothing and takes both vectors by value: its body works on two copies, which are
  destroyed when it returns.

  Line 181, \<^verbatim>\<open>std::memcpy(&g_peg_counts, &counts, sizeof(CdPegs))\<close>, copies sixteen bytes
  over the vector object that is the copy of \<^verbatim>\<open>g_peg_counts\<close>, not over its elements. A
  vector object is three pointers (start of the storage, end of the elements, end of the
  storage) in the standard libraries of the 64-bit platforms; the sixteen bytes are the
  first two, which become the processed and the discards count.
\<close>

record vector_object =
  v_start :: "64 word"
  v_finish :: "64 word"
  v_end_of_storage :: "64 word"

datatype hook_error = InvalidFree

definition memcpy_counts :: "CdPegs \<Rightarrow> vector_object \<Rightarrow> vector_object" where
  "memcpy_counts cnts v = v\<lparr>v_start := processed cnts, v_finish := discards cnts\<rparr>"

text \<open>
  Destroying a vector of \<^verbatim>\<open>PegCount\<close> releases the storage at its start pointer: nothing
  happens for a null pointer, the storage the vector owns is freed, and freeing any other
  address is an error.
\<close>

definition destroy_vector :: "64 word \<Rightarrow> vector_object \<Rightarrow> hook_error + unit" where
  "destroy_vector owned v =
     (if v_start v = 0 then Inr ()
      else if v_start v = owned then Inr ()
      else Inl InvalidFree)"

text \<open>Line 182 appends \<open>peg_names\<close> to the copy of the name vector.\<close>

definition stats_local_names :: "string list \<Rightarrow> string list" where
  "stats_local_names g_peg_names = g_peg_names @ peg_names"

text \<open>
  The call: \<open>cnts\<close> is the thread's \<^verbatim>\<open>counts\<close>, \<open>counts_copy\<close> the vector object that is
  the by-value copy of the caller's \<^verbatim>\<open>g_peg_counts\<close>, and the two lists are the contents
  of the caller's vectors. The result is what the caller holds after the call.
\<close>

definition stats ::
  "CdPegs \<Rightarrow> vector_object \<Rightarrow> 64 word list \<Rightarrow> string list \<Rightarrow>
     hook_error + (64 word list \<times> string list)" where
  "stats cnts counts_copy g_peg_counts g_peg_names =
     (let local_counts = memcpy_counts cnts counts_copy;
          local_names = stats_local_names g_peg_names
      in case destroy_vector (v_start counts_copy) local_counts of
           Inl e \<Rightarrow> Inl e
         | Inr u \<Rightarrow> Inr (g_peg_counts, g_peg_names))"

subsection \<open>Sample inputs\<close>

text \<open>
  A registry that knows TCP (protocol 6) only, an environment with ESP decoding switched
  on and sample values for the two flag constants, a fresh packet with fresh counters, and
  an ESP frame of \<open>n\<close> bytes whose pad-length and next-header bytes sit right before
  the twelve bytes of authentication data.
\<close>

definition tcp_only :: "16 word \<Rightarrow> bool" where
  "tcp_only cd_id = (cd_id = 6)"

definition sample_env :: codec_env where
  "sample_env = \<lparr>ScESPDecoding = True, has_codec = tcp_only, PKT_TRUST = 256, PKT_UNSURE_ENCAP = 1024\<rparr>"

definition sample_state :: codec_state where
  "sample_state = \<lparr>pkt = \<lparr>packet_flags = 0, data = 0, dsize = 0\<rparr>, lyr_len = 0, next_prot_id = 0,
     event_queue = [], counts = \<lparr>processed = 0, discards = 0\<rparr>\<rparr>"

definition esp_frame :: "nat \<Rightarrow> 8 word \<Rightarrow> 8 word \<Rightarrow> 8 word list" where
  "esp_frame n pad nxt = replicate (n - 14) 0 @ [pad, nxt] @ replicate 12 0"

section \<open>Properties of \<^verbatim>\<open>EspCodec::decode\<close>\<close>

subsection \<open>Arithmetic of the constants and of the narrowing stores\<close>

lemma esp_overhead: "ESP_HEADER_LEN + ESP_AUTH_DATA_LEN + ESP_TRAILER_LEN = 22"
  by (simp add: ESP_HEADER_LEN_def ESP_AUTH_DATA_LEN_def ESP_TRAILER_LEN_def)

lemma u22: "(ucast (22 :: 32 word) :: 16 word) = 22" by simp

lemma e8: "raw_pkt + uint ESP_HEADER_LEN = raw_pkt + 8" by (simp add: ESP_HEADER_LEN_def)

lemma pad_length_ptr_22: "pad_length_ptr raw_pkt len 22 = raw_pkt + (uint len - 14)"
  by (simp add: pad_length_ptr_def ESP_HEADER_LEN_def)

lemma next_prot_ptr_22: "next_prot_ptr raw_pkt len 22 = raw_pkt + (uint len - 13)"
  by (simp add: next_prot_ptr_def ESP_HEADER_LEN_def)

lemma deref_tail:
  assumes "k \<le> unat len" "0 < k" "unat len \<le> length buf"
  shows "deref buf raw_pkt (raw_pkt + (uint len - int k)) = Inr (buf ! (unat len - k))"
proof -
  have u: "uint len = int (unat len)" by (rule uint_nat)
  have "nat (uint len - int k) = unat len - k"
    unfolding u by linarith
  moreover have "int k \<le> uint len" "uint len - int k < int (length buf)"
    unfolding u using assms by linarith+
  ultimately show ?thesis
    by (simp add: deref_def)
qed

lemma deref_pad:
  assumes "22 \<le> unat len" "unat len \<le> length buf"
  shows "deref buf raw_pkt (pad_length_ptr raw_pkt len 22) = Inr (buf ! (unat len - 14))"
  using deref_tail[of 14 len buf raw_pkt] assms by (simp add: pad_length_ptr_22)

lemma deref_next:
  assumes "22 \<le> unat len" "unat len \<le> length buf"
  shows "deref buf raw_pkt (next_prot_ptr raw_pkt len 22) = Inr (buf ! (unat len - 13))"
  using deref_tail[of 13 len buf raw_pkt] assms by (simp add: next_prot_ptr_22)

lemma byte_as_prot_id: "(word_of_int (uint (b :: 8 word)) :: 16 word) = ucast b"
  by simp

lemma decode_disabled: "\<not> ScESPDecoding env \<Longrightarrow> decode env buf raw_pkt len s = Inr (False, s)"
  by (simp add: decode_def)

lemma decode_truncated:
  assumes "ScESPDecoding env" "len < 22"
  shows "decode env buf raw_pkt len s =
     Inr (False, s\<lparr>pkt := (pkt s)\<lparr>data := raw_pkt, dsize := ucast len\<rparr>,
                    event_queue := event_queue s @ [DECODE_ESP_HEADER_TRUNC]\<rparr>)"
  using assms by (simp add: decode_def esp_overhead decoder_event_def Let_def)

lemma decode_opaque_reads:
  assumes "ScESPDecoding env" "\<not> len < 22"
    and "deref buf raw_pkt (pad_length_ptr raw_pkt len 22) = Inr pad"
    and "deref buf raw_pkt (next_prot_ptr raw_pkt len 22) = Inr nxt"
    and "\<not> (ucast pad :: 32 word) < len"
  shows "decode env buf raw_pkt len s =
        Inr (True, s\<lparr>pkt := (pkt s)\<lparr>packet_flags := packet_flags (pkt s) OR PKT_TRUST env,
                  data := raw_pkt + 8, dsize := dsize_after len 22\<rparr>,
                lyr_len := 22, next_prot_id := - 1\<rparr>)"
  using assms
  by (simp add: decode_def esp_overhead u22 e8 Let_def split del: if_split)

lemma decode_decodable_reads:
  assumes "ScESPDecoding env" "\<not> len < 22"
    and "deref buf raw_pkt (pad_length_ptr raw_pkt len 22) = Inr pad"
    and "deref buf raw_pkt (next_prot_ptr raw_pkt len 22) = Inr nxt"
    and "(ucast pad :: 32 word) < len" "has_codec env (ucast nxt)"
  shows "decode env buf raw_pkt len s =
           Inr (True, s\<lparr>pkt := (pkt s)\<lparr>packet_flags := packet_flags (pkt s) OR PKT_TRUST env,
                  data := raw_pkt + 8, dsize := dsize_after len (22 + ucast pad)\<rparr>,
                lyr_len := 22 + ucast pad, next_prot_id := uint nxt\<rparr>)"
  using assms
  by (simp add: decode_def esp_overhead u22 e8 Let_def split del: if_split)

lemma decode_ambiguous_reads:
  assumes "ScESPDecoding env" "\<not> len < 22"
    and "deref buf raw_pkt (pad_length_ptr raw_pkt len 22) = Inr pad"
    and "deref buf raw_pkt (next_prot_ptr raw_pkt len 22) = Inr nxt"
    and "(ucast pad :: 32 word) < len" "\<not> has_codec env (ucast nxt)"
  shows "decode env buf raw_pkt len s =
           Inr (True, s\<lparr>pkt := (pkt s)\<lparr>packet_flags := packet_flags (pkt s) OR PKT_UNSURE_ENCAP env\<rparr>,
                lyr_len := 22 + ucast pad, next_prot_id := uint nxt\<rparr>)"
  using assms
  by (simp add: decode_def esp_overhead u22 e8 Let_def split del: if_split)


lemma word_ge_22: "(22 :: 32 word) \<le> len \<Longrightarrow> 22 \<le> unat len \<and> \<not> len < 22"
  by (simp add: word_le_nat_alt word_less_nat_alt)

lemma decode_cases:
  obtains (oob) "decode env buf raw_pkt len s = Inl OutOfBounds"
  | (disabled) "decode env buf raw_pkt len s = Inr (False, s)"
  | (truncated) "decode env buf raw_pkt len s =
       Inr (False, s\<lparr>pkt := (pkt s)\<lparr>data := raw_pkt, dsize := ucast len\<rparr>,
                      event_queue := event_queue s @ [DECODE_ESP_HEADER_TRUNC]\<rparr>)"
  | (opaque) "decode env buf raw_pkt len s =
       Inr (True, s\<lparr>pkt := (pkt s)\<lparr>packet_flags := packet_flags (pkt s) OR PKT_TRUST env,
                  data := raw_pkt + 8, dsize := dsize_after len 22\<rparr>,
                lyr_len := 22, next_prot_id := - 1\<rparr>)"
  | (ambiguous) pad :: "8 word" and nxt :: "8 word" where "decode env buf raw_pkt len s =
       Inr (True, s\<lparr>pkt := (pkt s)\<lparr>packet_flags := packet_flags (pkt s) OR PKT_UNSURE_ENCAP env\<rparr>,
                lyr_len := 22 + ucast pad, next_prot_id := uint nxt\<rparr>)"
  | (decodable) pad :: "8 word" and nxt :: "8 word" where "decode env buf raw_pkt len s =
       Inr (True, s\<lparr>pkt := (pkt s)\<lparr>packet_flags := packet_flags (pkt s) OR PKT_TRUST env,
                  data := raw_pkt + 8, dsize := dsize_after len (22 + ucast pad)\<rparr>,
                lyr_len := 22 + ucast pad, next_prot_id := uint nxt\<rparr>)"
proof (cases "ScESPDecoding env")
  case False
  then show ?thesis using disabled decode_disabled by blast
next
  case en: True
  show ?thesis
  proof (cases "len < 22")
    case True
    then show ?thesis using truncated decode_truncated[OF en] by blast
  next
    case long: False
    show ?thesis
    proof (cases "deref buf raw_pkt (pad_length_ptr raw_pkt len 22)")
      case (Inl e)
      then have "decode env buf raw_pkt len s = Inl OutOfBounds"
        using en long by (cases e) (simp add: decode_def esp_overhead u22 Let_def)
      then show ?thesis using oob by blast
    next
      case p: (Inr pad)
      show ?thesis
      proof (cases "deref buf raw_pkt (next_prot_ptr raw_pkt len 22)")
        case (Inl e)
        then have "decode env buf raw_pkt len s = Inl OutOfBounds"
          using en long p by (cases e) (simp add: decode_def esp_overhead u22 Let_def)
        then show ?thesis using oob by blast
      next
        case n: (Inr nxt)
        show ?thesis
        proof (cases "(ucast pad :: 32 word) < len")
          case False
          then show ?thesis using opaque decode_opaque_reads[OF en long p n] by blast
        next
          case lt: True
          show ?thesis
          proof (cases "has_codec env (ucast nxt)")
            case True
            then show ?thesis using decodable[where pad=pad and nxt=nxt] decode_decodable_reads[OF en long p n lt] by simp
          next
            case False
            then show ?thesis using ambiguous[where pad=pad and nxt=nxt] decode_ambiguous_reads[OF en long p n lt] by simp
          qed
        qed
      qed
    qed
  qed
qed

lemma dsize_after_exact:
  assumes "uint ll \<le> uint len" "uint len \<le> 65535"
  shows "uint (dsize_after len ll) = uint len - uint ll"
proof -
  have "0 \<le> uint len" by simp
  then have "take_bit 16 (uint len) = uint len"
    using assms(2) by (intro take_bit_int_eq_self) simp_all
  then have a: "uint (ucast len :: 16 word) = uint len"
    by (simp add: unsigned_ucast_eq)
  have "uint len - uint ll < 65536"
    using assms uint_ge_0[of ll] by linarith
  then have "0 \<le> uint len - uint ll" "uint len - uint ll < 2 ^ 16"
    using assms by simp_all
  then have "take_bit 16 (uint len - uint ll) = uint len - uint ll"
    by (rule take_bit_int_eq_self)
  then show ?thesis
    unfolding dsize_after_def uint_word_of_int_eq a by simp
qed

lemma lyr_len_padded: "uint (22 + ucast (pad :: 8 word) :: 16 word) = 22 + uint pad"
proof -
  have "uint pad < 256" using uint_bounded[of pad] by simp
  moreover have "uint (ucast pad :: 16 word) = uint pad"
    by (simp add: uint_up_ucast is_up)
  ultimately show ?thesis
    by (simp add: uint_plus_if')
qed

lemma pad_less_iff: "((ucast (pad :: 8 word) :: 32 word) < len) = (uint pad < uint len)"
proof -
  have "uint (ucast pad :: 32 word) = uint pad"
    by (simp add: uint_up_ucast is_up)
  then show ?thesis by (simp add: word_less_def)
qed

lemma esp_frame_length: "14 \<le> n \<Longrightarrow> length (esp_frame n pad nxt) = n"
  by (simp add: esp_frame_def)

lemma esp_frame_pad: "14 \<le> n \<Longrightarrow> esp_frame n pad nxt ! (n - 14) = pad"
  by (simp add: esp_frame_def nth_append)

lemma esp_frame_nxt:
  assumes "14 \<le> n"
  shows "esp_frame n pad nxt ! (n - 13) = nxt"
proof -
  have "n - 13 = Suc (n - 14)" using assms by simp
  then show ?thesis by (simp add: esp_frame_def nth_append)
qed

lemma decode_total:
  assumes "unat len \<le> length buf"
  shows "\<exists>b s'. decode env buf raw_pkt len s = Inr (b, s')"
proof (cases "ScESPDecoding env \<and> \<not> len < 22")
  case False
  then show ?thesis
    using decode_disabled[of env buf raw_pkt len s] decode_truncated[of env len buf raw_pkt s]
    by auto
next
  case True
  then have en: "ScESPDecoding env" and long: "\<not> len < 22" by simp_all
  from long have ge: "22 \<le> unat len" by (simp add: word_less_nat_alt)
  note p = deref_pad[OF ge assms] and n = deref_next[OF ge assms]
  show ?thesis
    using decode_opaque_reads[OF en long p n] decode_decodable_reads[OF en long p n]
      decode_ambiguous_reads[OF en long p n]
    by metis
qed

lemma or_keeps: "(x OR t) AND x = (x :: 32 word)"
  by (rule bit_eqI) (auto simp: bit_and_iff bit_or_iff)

subsection \<open>Three sample runs\<close>

lemma sample_truncated_run:
  "decode sample_env (replicate 10 0) 0 10 sample_state =
     Inr (False, sample_state\<lparr>pkt := \<lparr>packet_flags = 0, data = 0, dsize = 10\<rparr>,
                   event_queue := [DECODE_ESP_HEADER_TRUNC]\<rparr>)"
proof -
  have en: "ScESPDecoding sample_env" by (simp add: sample_env_def)
  show ?thesis
    using decode_truncated[OF en, of 10 "replicate 10 0" 0 sample_state]
    by (simp add: sample_state_def)
qed

lemma sample_opaque_run:
  "decode sample_env (esp_frame 30 200 6) 0 30 sample_state =
     Inr (True, sample_state\<lparr>pkt := \<lparr>packet_flags = 256, data = 8, dsize = 8\<rparr>,
                  lyr_len := 22, next_prot_id := - 1\<rparr>)"
proof -
  have ge: "22 \<le> unat (30 :: 32 word)" and long: "\<not> (30 :: 32 word) < 22" by simp_all
  have fits: "unat (30 :: 32 word) \<le> length (esp_frame 30 200 6)"
    by (simp add: esp_frame_length)
  have pad: "esp_frame 30 200 6 ! 16 = 200"
    using esp_frame_pad[of 30 200 6] by simp
  have en: "ScESPDecoding sample_env" by (simp add: sample_env_def)
  have "decode sample_env (esp_frame 30 200 6) 0 30 sample_state =
      Inr (True, sample_state\<lparr>pkt := (pkt sample_state)
                 \<lparr>packet_flags := packet_flags (pkt sample_state) OR PKT_TRUST sample_env,
                  data := 0 + 8, dsize := dsize_after 30 22\<rparr>,
                lyr_len := 22, next_prot_id := - 1\<rparr>)"
    using decode_opaque_reads[OF en long deref_pad[OF ge fits] deref_next[OF ge fits],
        where s = sample_state and raw_pkt = 0]
    by (simp add: pad)
  moreover have "dsize_after 30 22 = 8"
    by (simp add: dsize_after_def)
  ultimately show ?thesis
    by (simp add: sample_env_def sample_state_def)
qed


subsection \<open>The decodable path\<close>




subsection \<open>The opaque path\<close>

text \<open>
  C2, as stated: with \<open>22 \<le> len \<le> pad_length\<close> the payload view is the span from
  \<open>raw_pkt + 8\<close> to \<open>raw_pkt + len\<close>. The call stores the size \<open>len - 22\<close>, so the view ends
  fourteen bytes earlier: with 30 bytes and a pad length of 200 it is the span from 8 to 16.
\<close>

theorem decode_opaque_span_counterexample:
  "ScESPDecoding sample_env \<and> (22 :: 32 word) \<le> 30 \<and>
   (30 :: 32 word) \<le> ucast (esp_frame 30 200 6 ! (unat (30 :: 32 word) - 14)) \<and>
   decode sample_env (esp_frame 30 200 6) 0 30 sample_state =
     Inr (True, sample_state\<lparr>pkt := \<lparr>packet_flags = 256, data = 8, dsize = 8\<rparr>,
                  lyr_len := 22, next_prot_id := - 1\<rparr>) \<and>
   data (pkt (sample_state\<lparr>pkt := \<lparr>packet_flags = 256, data = 8, dsize = 8\<rparr>,
                  lyr_len := 22, next_prot_id := - 1\<rparr>)) +
   uint (dsize (pkt (sample_state\<lparr>pkt := \<lparr>packet_flags = 256, data = 8, dsize = 8\<rparr>,
                  lyr_len := 22, next_prot_id := - 1\<rparr>))) \<noteq> 0 + uint (30 :: 32 word)"
  using sample_opaque_run
  by (simp add: sample_env_def esp_frame_pad[of 30, simplified])

text \<open>
  C2, amended: with ESP decoding enabled, \<open>22 \<le> len\<close>, a buffer that holds \<open>len\<close> bytes
  and a pad-length byte of at least \<open>len\<close>, the call returns true, ORs \<open>PKT_TRUST\<close> into the
  flags, reports the next protocol \<open>-1\<close>, and sets the payload view to start at
  \<open>raw_pkt + 8\<close> with size \<open>len - 22\<close>, that is the span from \<open>raw_pkt + 8\<close> to
  \<open>raw_pkt + len - 14\<close>.
\<close>

theorem decode_opaque:
  assumes "ScESPDecoding env" and "22 \<le> len" and "unat len \<le> length buf"
    and "len \<le> ucast (buf ! (unat len - 14))"
  shows "\<exists>s'. decode env buf raw_pkt len s = Inr (True, s') \<and>
      packet_flags (pkt s') = packet_flags (pkt s) OR PKT_TRUST env \<and>
      next_prot_id s' = - 1 \<and>
      data (pkt s') = raw_pkt + 8 \<and>
      uint (dsize (pkt s')) = uint len - 22 \<and>
      data (pkt s') + uint (dsize (pkt s')) = raw_pkt + uint len - 14"
proof -
  let ?pad = "buf ! (unat len - 14)"
  have ge: "22 \<le> unat len" and long: "\<not> len < 22"
    using word_ge_22[OF assms(2)] by simp_all
  have big: "\<not> (ucast ?pad :: 32 word) < len"
    using assms(4) by (simp add: not_less)
  have run: "decode env buf raw_pkt len s =
      Inr (True, s\<lparr>pkt := (pkt s)\<lparr>packet_flags := packet_flags (pkt s) OR PKT_TRUST env,
                  data := raw_pkt + 8, dsize := dsize_after len 22\<rparr>,
                lyr_len := 22, next_prot_id := - 1\<rparr>)"
    by (rule decode_opaque_reads[OF assms(1) long deref_pad[OF ge assms(3)]
          deref_next[OF ge assms(3)] big])
  have "uint len \<le> uint ?pad"
    using big by (simp add: pad_less_iff)
  moreover have "uint ?pad < 256"
    using uint_bounded[of ?pad] by simp
  ultimately have small: "uint len \<le> 65535" by linarith
  have "uint (22 :: 16 word) \<le> uint len"
    using assms(2) by (simp add: word_le_def)
  then have "uint (dsize_after len 22) = uint len - 22"
    using dsize_after_exact[OF _ small, of 22] by simp
  then show ?thesis
    by (simp add: run)
qed

theorem decode_opaque_witness:
  "ScESPDecoding sample_env \<and> (22 :: 32 word) \<le> 30 \<and>
   unat (30 :: 32 word) \<le> length (esp_frame 30 200 6) \<and>
   (30 :: 32 word) \<le> ucast (esp_frame 30 200 6 ! (unat (30 :: 32 word) - 14)) \<and>
   (\<exists>s'. decode sample_env (esp_frame 30 200 6) 0 30 sample_state = Inr (True, s') \<and>
      packet_flags (pkt s') = packet_flags (pkt sample_state) OR PKT_TRUST sample_env \<and>
      next_prot_id s' = - 1 \<and> data (pkt s') = 8 \<and> uint (dsize (pkt s')) = 8 \<and>
      data (pkt s') + uint (dsize (pkt s')) = 16)"
  using decode_opaque[of sample_env 30 "esp_frame 30 200 6" 0 sample_state]
  by (simp add: sample_env_def esp_frame_length esp_frame_pad[of 30, simplified])

subsection \<open>Rejections\<close>

text \<open>
  C3: with ESP decoding enabled and \<open>len < 22\<close>, the call queues the event
  \<open>DECODE_ESP_HEADER_TRUNC\<close> exactly once, sets the payload view to the whole buffer
  (\<open>data = raw_pkt\<close>, \<open>dsize = len\<close>) and returns false.
\<close>

theorem decode_truncated_rejects:
  assumes "ScESPDecoding env" and "len < 22"
  shows "\<exists>s'. decode env buf raw_pkt len s = Inr (False, s') \<and>
      event_queue s' = event_queue s @ [DECODE_ESP_HEADER_TRUNC] \<and>
      data (pkt s') = raw_pkt \<and>
      uint (dsize (pkt s')) = uint len"
proof -
  have "uint len < 22"
    using assms(2) by (simp add: word_less_def)
  then have "take_bit 16 (uint len) = uint len"
    by (intro take_bit_int_eq_self) simp_all
  then have "uint (ucast len :: 16 word) = uint len"
    by (simp add: unsigned_ucast_eq)
  then show ?thesis
    by (simp add: decode_truncated[OF assms])
qed

theorem decode_truncated_rejects_witness:
  "ScESPDecoding sample_env \<and> (10 :: 32 word) < 22 \<and>
   (\<exists>s'. decode sample_env (replicate 10 0) 0 10 sample_state = Inr (False, s') \<and>
      event_queue s' = event_queue sample_state @ [DECODE_ESP_HEADER_TRUNC] \<and>
      data (pkt s') = 0 \<and> uint (dsize (pkt s')) = 10)"
  using decode_truncated_rejects[of sample_env 10 "replicate 10 0" 0 sample_state]
  by (simp add: sample_env_def)

text \<open>
  C4: on a buffer that holds \<open>len\<close> bytes the call always returns; it returns false exactly
  when ESP decoding is disabled or \<open>len < 22\<close>, and otherwise returns true with the layer
  length and the next protocol: \<open>22 + pad_length\<close> and the next-header byte on the
  non-opaque path, \<open>-1\<close> on the opaque path.
\<close>

theorem decode_returns:
  assumes "unat len \<le> length buf"
  shows "\<exists>b s'. decode env buf raw_pkt len s = Inr (b, s') \<and>
      (\<not> b \<longleftrightarrow> \<not> ScESPDecoding env \<or> len < 22) \<and>
      (b \<longrightarrow>
        (if ucast (buf ! (unat len - 14)) < len
         then uint (lyr_len s') = 22 + uint (buf ! (unat len - 14)) \<and>
              next_prot_id s' = uint (buf ! (unat len - 13))
         else uint (lyr_len s') = 22 \<and> next_prot_id s' = - 1))"
proof (cases "ScESPDecoding env")
  case False
  then show ?thesis by (auto simp: decode_disabled)
next
  case en: True
  show ?thesis
  proof (cases "len < 22")
    case True
    then show ?thesis using en by (auto simp: decode_truncated)
  next
    case long: False
    then have ge: "22 \<le> unat len" by (simp add: word_less_nat_alt)
    note p = deref_pad[OF ge assms] and n = deref_next[OF ge assms]
    show ?thesis
    proof (cases "(ucast (buf ! (unat len - 14)) :: 32 word) < len")
      case False
      then show ?thesis
        using en long by (auto simp: decode_opaque_reads[OF en long p n False])
    next
      case lt: True
      show ?thesis
      proof (cases "has_codec env (ucast (buf ! (unat len - 13)))")
        case True
        then show ?thesis
          using en long lt
          by (auto simp: decode_decodable_reads[OF en long p n lt True] lyr_len_padded)
      next
        case False
        then show ?thesis
          using en long lt
          by (auto simp: decode_ambiguous_reads[OF en long p n lt False] lyr_len_padded)
      qed
    qed
  qed
qed

theorem decode_returns_witness:
  "unat (30 :: 32 word) \<le> length (esp_frame 30 2 6) \<and>
   (\<exists>b s'. decode sample_env (esp_frame 30 2 6) 0 30 sample_state = Inr (b, s') \<and>
      b \<and> uint (lyr_len s') = 24 \<and> next_prot_id s' = 6)"
  using decode_returns[of 30 "esp_frame 30 2 6" sample_env 0 sample_state]
  by (auto simp: sample_env_def esp_frame_length esp_frame_pad[of 30, simplified]
      esp_frame_nxt[of 30, simplified])

subsection \<open>The ambiguous path\<close>

text \<open>
  C5: with ESP decoding enabled, \<open>22 \<le> len\<close>, a pad-length byte below \<open>len\<close> and no codec
  registered for the next-header byte, the call ORs \<open>PKT_UNSURE_ENCAP\<close> into the flags,
  leaves \<open>data\<close> and \<open>dsize\<close> of the packet as they were, and returns true with the layer
  length \<open>22 + pad_length\<close>.
\<close>

theorem decode_ambiguous:
  assumes "ScESPDecoding env" and "22 \<le> len" and "unat len \<le> length buf"
    and "ucast (buf ! (unat len - 14)) < len"
    and "\<not> has_codec env (ucast (buf ! (unat len - 13)))"
  shows "\<exists>s'. decode env buf raw_pkt len s = Inr (True, s') \<and>
      packet_flags (pkt s') = packet_flags (pkt s) OR PKT_UNSURE_ENCAP env \<and>
      data (pkt s') = data (pkt s) \<and>
      dsize (pkt s') = dsize (pkt s) \<and>
      uint (lyr_len s') = 22 + uint (buf ! (unat len - 14))"
proof -
  have ge: "22 \<le> unat len" and long: "\<not> len < 22"
    using word_ge_22[OF assms(2)] by simp_all
  show ?thesis
    by (simp add: decode_ambiguous_reads[OF assms(1) long deref_pad[OF ge assms(3)]
          deref_next[OF ge assms(3)] assms(4,5)] lyr_len_padded)
qed

theorem decode_ambiguous_witness:
  "ScESPDecoding sample_env \<and> (22 :: 32 word) \<le> 30 \<and>
   unat (30 :: 32 word) \<le> length (esp_frame 30 2 17) \<and>
   ucast (esp_frame 30 2 17 ! (unat (30 :: 32 word) - 14)) < (30 :: 32 word) \<and>
   \<not> has_codec sample_env (ucast (esp_frame 30 2 17 ! (unat (30 :: 32 word) - 13))) \<and>
   (\<exists>s'. decode sample_env (esp_frame 30 2 17) 0 30 sample_state = Inr (True, s') \<and>
      packet_flags (pkt s') = packet_flags (pkt sample_state) OR PKT_UNSURE_ENCAP sample_env \<and>
      data (pkt s') = data (pkt sample_state) \<and> dsize (pkt s') = dsize (pkt sample_state) \<and>
      uint (lyr_len s') = 24)"
  using decode_ambiguous[of sample_env 30 "esp_frame 30 2 17" 0 sample_state]
  by (simp add: sample_env_def tcp_only_def esp_frame_length esp_frame_pad[of 30, simplified]
      esp_frame_nxt[of 30, simplified])

subsection \<open>The peg counts\<close>

text \<open>
  C6: the engine is to increment the processed count on every call that gets past the
  length check, and the discards count by exactly one on every truncation rejection. The
  code does neither. The call on a 10-byte buffer is rejected as truncated, and its
  discards count is not one more than before; the call on a 30-byte buffer gets past the
  length check, and its processed count is not one more than before.
\<close>

theorem decode_counts_not_incremented:
  "ScESPDecoding sample_env \<and> (10 :: 32 word) < 22 \<and>
   decode sample_env (replicate 10 0) 0 10 sample_state =
     Inr (False, sample_state\<lparr>pkt := \<lparr>packet_flags = 0, data = 0, dsize = 10\<rparr>,
                   event_queue := [DECODE_ESP_HEADER_TRUNC]\<rparr>) \<and>
   discards (counts (sample_state\<lparr>pkt := \<lparr>packet_flags = 0, data = 0, dsize = 10\<rparr>,
                   event_queue := [DECODE_ESP_HEADER_TRUNC]\<rparr>)) \<noteq>
     discards (counts sample_state) + 1 \<and>
   (22 :: 32 word) \<le> 30 \<and>
   decode sample_env (esp_frame 30 200 6) 0 30 sample_state =
     Inr (True, sample_state\<lparr>pkt := \<lparr>packet_flags = 256, data = 8, dsize = 8\<rparr>,
                  lyr_len := 22, next_prot_id := - 1\<rparr>) \<and>
   processed (counts (sample_state\<lparr>pkt := \<lparr>packet_flags = 256, data = 8, dsize = 8\<rparr>,
                  lyr_len := 22, next_prot_id := - 1\<rparr>)) \<noteq>
     processed (counts sample_state) + 1"
  using sample_truncated_run sample_opaque_run
  by (simp add: sample_env_def sample_state_def)

subsection \<open>The tail reads\<close>

text \<open>
  C7: for \<open>22 \<le> len\<close> the two tail reads are at the offsets \<open>len - 14\<close> and \<open>len - 13\<close>
  from \<open>raw_pkt\<close>, both within \<open>0 \<le> offset < len\<close>; on a buffer that holds \<open>len\<close> bytes both
  bounds-checked reads succeed and the call never ends in \<open>OutOfBounds\<close>.
\<close>

theorem tail_reads_in_bounds:
  assumes "22 \<le> len" and "unat len \<le> length buf"
  shows "pad_length_ptr raw_pkt len 22 = raw_pkt + (uint len - 14) \<and>
      0 \<le> uint len - 14 \<and> uint len - 14 < uint len \<and>
      next_prot_ptr raw_pkt len 22 = raw_pkt + (uint len - 13) \<and>
      0 \<le> uint len - 13 \<and> uint len - 13 < uint len \<and>
      deref buf raw_pkt (pad_length_ptr raw_pkt len 22) = Inr (buf ! (unat len - 14)) \<and>
      deref buf raw_pkt (next_prot_ptr raw_pkt len 22) = Inr (buf ! (unat len - 13)) \<and>
      decode env buf raw_pkt len s \<noteq> Inl OutOfBounds"
proof -
  have ge: "22 \<le> unat len"
    using word_ge_22[OF assms(1)] by simp
  have "22 \<le> uint len"
    using assms(1) by (simp add: word_le_def)
  then have "0 \<le> uint len - 14" "uint len - 14 < uint len"
    "0 \<le> uint len - 13" "uint len - 13 < uint len" by simp_all
  moreover have "decode env buf raw_pkt len s \<noteq> Inl OutOfBounds"
    using decode_total[OF assms(2), of env raw_pkt s] by auto
  ultimately show ?thesis
    using pad_length_ptr_22[of raw_pkt len] next_prot_ptr_22[of raw_pkt len]
      deref_pad[OF ge assms(2), of raw_pkt] deref_next[OF ge assms(2), of raw_pkt]
    by blast
qed

theorem tail_reads_in_bounds_witness:
  "(22 :: 32 word) \<le> 30 \<and> unat (30 :: 32 word) \<le> length (esp_frame 30 2 6) \<and>
   pad_length_ptr 0 30 22 = 16 \<and> next_prot_ptr 0 30 22 = 17 \<and>
   deref (esp_frame 30 2 6) 0 (pad_length_ptr 0 30 22) = Inr 2 \<and>
   deref (esp_frame 30 2 6) 0 (next_prot_ptr 0 30 22) = Inr 6 \<and>
   decode sample_env (esp_frame 30 2 6) 0 30 sample_state \<noteq> Inl OutOfBounds"
  using tail_reads_in_bounds[of 30 "esp_frame 30 2 6" 0 sample_env sample_state]
  by (auto simp: esp_frame_length esp_frame_pad[of 30, simplified]
      esp_frame_nxt[of 30, simplified])

subsection \<open>Long packets are never opaque\<close>

text \<open>
  C9: with ESP decoding enabled and \<open>256 \<le> len\<close>, the pad-length byte, at most 255, is
  below \<open>len\<close>, so the call takes the non-opaque path: it returns true with the layer
  length \<open>22 + pad_length\<close> and the next-header byte as next protocol, never \<open>-1\<close>.
\<close>

theorem decode_never_opaque_from_256:
  assumes "ScESPDecoding env" and "256 \<le> len" and "unat len \<le> length buf"
  shows "ucast (buf ! (unat len - 14)) < len \<and>
     (\<exists>s'. decode env buf raw_pkt len s = Inr (True, s') \<and>
        uint (lyr_len s') = 22 + uint (buf ! (unat len - 14)) \<and>
        next_prot_id s' = uint (buf ! (unat len - 13)) \<and>
        next_prot_id s' \<noteq> - 1)"
proof -
  let ?pad = "buf ! (unat len - 14)" and ?nxt = "buf ! (unat len - 13)"
  have "256 \<le> uint len"
    using assms(2) by (simp add: word_le_def)
  moreover have "uint ?pad < 256"
    using uint_bounded[of ?pad] by simp
  ultimately have "uint ?pad < uint len" by linarith
  then have lt: "(ucast ?pad :: 32 word) < len"
    by (simp add: pad_less_iff)
  have "256 \<le> unat len"
    using assms(2) by (simp add: word_le_nat_alt)
  then have ge: "22 \<le> unat len" by simp
  then have long: "\<not> len < 22" by (simp add: word_less_nat_alt)
  note p = deref_pad[OF ge assms(3)] and n = deref_next[OF ge assms(3)]
  have nn: "uint ?nxt \<noteq> - 1"
    using uint_ge_0[of ?nxt] by linarith
  show ?thesis
  proof (cases "has_codec env (ucast ?nxt)")
    case True
    then show ?thesis
      using lt nn
      by (simp add: decode_decodable_reads[OF assms(1) long p n lt True] lyr_len_padded)
  next
    case False
    then show ?thesis
      using lt nn
      by (simp add: decode_ambiguous_reads[OF assms(1) long p n lt False] lyr_len_padded)
  qed
qed

theorem decode_never_opaque_from_256_witness:
  "ScESPDecoding sample_env \<and> (256 :: 32 word) \<le> 256 \<and>
   unat (256 :: 32 word) \<le> length (esp_frame 256 255 6) \<and>
   ucast (esp_frame 256 255 6 ! (unat (256 :: 32 word) - 14)) < (256 :: 32 word) \<and>
   (\<exists>s'. decode sample_env (esp_frame 256 255 6) 0 256 sample_state = Inr (True, s') \<and>
      uint (lyr_len s') = 277 \<and> next_prot_id s' = 6 \<and> next_prot_id s' \<noteq> - 1)"
  using decode_never_opaque_from_256[of sample_env 256 "esp_frame 256 255 6" 0 sample_state]
  by (simp add: sample_env_def esp_frame_length esp_frame_pad[of 256, simplified]
      esp_frame_nxt[of 256, simplified])

subsection \<open>The flags\<close>

text \<open>
  C10: a call only ORs into the flag word: every bit set before is set after, and the new
  flag word is the old one, or the old one with \<open>PKT_TRUST\<close>, or the old one with
  \<open>PKT_UNSURE_ENCAP\<close>; no call ORs in both.
\<close>

theorem decode_flags_only_added:
  assumes "decode env buf raw_pkt len s = Inr (b, s')"
  shows "packet_flags (pkt s') AND packet_flags (pkt s) = packet_flags (pkt s) \<and>
     (packet_flags (pkt s') = packet_flags (pkt s) \<or>
      packet_flags (pkt s') = packet_flags (pkt s) OR PKT_TRUST env \<or>
      packet_flags (pkt s') = packet_flags (pkt s) OR PKT_UNSURE_ENCAP env)"
  using assms by (cases rule: decode_cases[of env buf raw_pkt len s]) (auto simp: or_keeps)

theorem decode_flags_only_added_witness:
  "decode sample_env (esp_frame 30 200 6) 0 30 sample_state =
     Inr (True, sample_state\<lparr>pkt := \<lparr>packet_flags = 256, data = 8, dsize = 8\<rparr>,
                  lyr_len := 22, next_prot_id := - 1\<rparr>) \<and>
   (256 :: 32 word) AND packet_flags (pkt sample_state) = packet_flags (pkt sample_state) \<and>
   (256 :: 32 word) = packet_flags (pkt sample_state) OR PKT_TRUST sample_env"
  using decode_flags_only_added[OF sample_opaque_run] sample_opaque_run
  by (simp add: sample_env_def sample_state_def)

section \<open>The stats hook\<close>

text \<open>
  C8: the hook is to hand its caller the counters named ``processed'' and ``discards''
  with their values. Called with two empty vectors while both counts are 0, it returns and
  leaves the caller's vectors empty; the names it appends to its own copy are
  \<open>NameCodec_processed\<close> and \<open>NameCodec_discards\<close>.
\<close>

theorem stats_by_value:
  "stats \<lparr>processed = 0, discards = 0\<rparr>
     \<lparr>v_start = 0, v_finish = 0, v_end_of_storage = 0\<rparr> [] [] = Inr ([], []) \<and>
   stats_local_names [] = [''NameCodec_processed'', ''NameCodec_discards''] \<and>
   ''processed'' \<notin> set (stats_local_names []) \<and>
   ''discards'' \<notin> set (stats_local_names [])"
  by (simp add: stats_def memcpy_counts_def destroy_vector_def stats_local_names_def
      peg_names_def)

end
